theory Spec2Isabelle
  imports Main "HOL-Library.Sublist"
begin

section \<open>The to-do list client of static/script.js\<close>

text \<open>
  The client keeps three globals (\<^verbatim>\<open>tasks\<close>, \<^verbatim>\<open>deletedTask\<close>, \<^verbatim>\<open>calendar\<close>) and writes to a
  handful of DOM nodes. The model threads one record through every function: the globals,
  the content of the DOM nodes the script writes to, and three logs (toasts shown, errors
  written to the console, requests handed to \<^verbatim>\<open>fetch\<close>).

  Every \<^verbatim>\<open>async\<close> function of the script awaits at most one \<^verbatim>\<open>fetch\<close>. The outcome of that
  request is an argument of the modelled function, so a theorem quantified over it holds
  for every server. A function runs to completion before the next one starts; interleaving
  of two pending requests is outside the model.

  Typing conventions: a task id is an integer; \<^verbatim>\<open>completed\<close> is a boolean; a reminder is
  \<^verbatim>\<open>null\<close> or a string; an argument of a chat action is absent or of the type the
  assistant contract gives it.
\<close>

subsection \<open>Data\<close>

text \<open>A task; \<^verbatim>\<open>ident\<close> is its \<^verbatim>\<open>id\<close> field.\<close>

record task =
  ident :: int
  description :: string
  completed :: bool
  reminder :: "string option"

text \<open>The \<^verbatim>\<open>task\<close> object of a PATCH reply: any field may be missing.\<close>

record patch =
  p_ident :: "int option"
  p_description :: "string option"
  p_completed :: "bool option"
  p_reminder :: "string option option"

text \<open>\<^verbatim>\<open>Rejected\<close>: \<^verbatim>\<open>fetch\<close> or \<^verbatim>\<open>res.json()\<close> throws. \<^verbatim>\<open>Json d\<close>: the parsed body.\<close>

datatype 'a response = Rejected | Json 'a

datatype request =
    GET_tasks
  | POST_tasks string "string option"
  | PATCH_completed int bool
  | PATCH_edit int string "string option"
  | DELETE_task int
  | POST_undo_delete
  | DELETE_reset
  | POST_chat string

datatype error = FetchError | TypeError

datatype who = User | AI

text \<open>
  A transcript entry. The \<^verbatim>\<open>viewTasks\<close> lines print the reminder through the browser's
  locale; the model keeps the position, the description and the reminder itself. Two
  messages end in the print of a number, \<^verbatim>\<open>#${args.task_number || args.task_id}\<close>;
  \<^verbatim>\<open>NumberLine\<close> keeps the text before it and the number itself (\<^verbatim>\<open>None\<close>: the print is
  of \<^verbatim>\<open>undefined\<close>).
\<close>

datatype chat_text =
    Plain string
  | TaskLine nat string "string option"
  | NumberLine string "int option"

text \<open>One row of \<^verbatim>\<open>#taskList\<close>: the number shown, the class, the text, and the id its
  three buttons pass to \<^verbatim>\<open>toggleComplete\<close>, \<^verbatim>\<open>editTask\<close> and \<^verbatim>\<open>deleteTask\<close>.\<close>

record row =
  ordinal :: nat
  row_completed :: bool
  row_description :: string
  row_reminder :: "string option"
  row_ident :: int

text \<open>One calendar event, as handed to \<^verbatim>\<open>calendar.addEvent\<close>. Its id is
  \<^verbatim>\<open>String(task.id)\<close>; \<^verbatim>\<open>ev_id\<close> is the number that \<^verbatim>\<open>String\<close> prints, and the print itself
  is left to the browser.\<close>

record marker =
  ev_id :: int
  ev_start :: string

record day_row =
  day_ordinal :: nat
  day_description :: string
  day_reminder :: "string option"

record client =
  tasks :: "task list"
  deletedTask :: "task option"
  calendar :: "marker list"
  taskList :: "row list"
  totalTasks :: nat
  completedTasks :: nat
  pendingTasks :: nat
  dayTasks :: "day_row list"
  chatMessages :: "(who \<times> chat_text) list"
  taskInput :: string
  dateInput :: string
  timeInput :: string
  chatInput :: string
  toast :: "string list"
  console :: "error list"
  requests :: "request list"

subsection \<open>JavaScript primitives\<close>

text \<open>Truthiness of a value that is \<^verbatim>\<open>null\<close>/\<^verbatim>\<open>undefined\<close> or a string.\<close>

fun truthy :: "string option \<Rightarrow> bool" where
  "truthy None = False"
| "truthy (Some s) = (s \<noteq> [])"

text \<open>\<^verbatim>\<open>String.prototype.trim\<close> on the characters below 256.\<close>

definition is_space :: "char \<Rightarrow> bool" where
  "is_space c = (of_char c \<in> set [9, 10, 11, 12, 13, 32, 160 :: nat])"

definition trim :: "string \<Rightarrow> string" where
  "trim s = rev (dropWhile is_space (rev (dropWhile is_space s)))"

text \<open>\<^verbatim>\<open>Object.assign(task, data.task)\<close>: the fields present overwrite, the others stay.\<close>

definition assign :: "task \<Rightarrow> patch \<Rightarrow> task" where
  "assign t p =
     t\<lparr> ident := (case p_ident p of None \<Rightarrow> ident t | Some i \<Rightarrow> i),
        description := (case p_description p of None \<Rightarrow> description t | Some d \<Rightarrow> d),
        completed := (case p_completed p of None \<Rightarrow> completed t | Some c \<Rightarrow> c),
        reminder := (case p_reminder p of None \<Rightarrow> reminder t | Some r \<Rightarrow> r) \<rparr>"

text \<open>The object \<^verbatim>\<open>tasks.find(t => t.id === id)\<close> returns is mutated in place: the first
  element of the array with that id changes.\<close>

fun assign_found :: "int \<Rightarrow> patch \<Rightarrow> task list \<Rightarrow> task list" where
  "assign_found i p [] = []"
| "assign_found i p (t # ts) =
     (if ident t = i then assign t p # ts else t # assign_found i p ts)"

subsection \<open>Utilities and rendering\<close>

definition showToast :: "string \<Rightarrow> client \<Rightarrow> client" where
  "showToast msg s = s\<lparr> toast := toast s @ [msg] \<rparr>"

definition console_error :: "error \<Rightarrow> client \<Rightarrow> client" where
  "console_error e s = s\<lparr> console := console s @ [e] \<rparr>"

definition fetch :: "request \<Rightarrow> client \<Rightarrow> client" where
  "fetch r s = s\<lparr> requests := requests s @ [r] \<rparr>"

definition task_row :: "nat \<times> task \<Rightarrow> row" where
  "task_row it =
     (case it of (index, t) \<Rightarrow>
        \<lparr> ordinal = index + 1,
          row_completed = completed t,
          row_description = description t,
          row_reminder = (if truthy (reminder t) then reminder t else None),
          row_ident = ident t \<rparr>)"

text \<open>\<^verbatim>\<open>tasks.sort((a, b) => a.id - b.id)\<close> sorts the global array in place, stably and
  ascending by id; \<^verbatim>\<open>forEach\<close> then appends one row per element.\<close>

definition renderTasks :: "client \<Rightarrow> client" where
  "renderTasks s =
     (let sorted_tasks = sort_key ident (tasks s)
      in s\<lparr> tasks := sorted_tasks,
            taskList := map task_row (enumerate 0 sorted_tasks) \<rparr>)"

definition updateOverview :: "client \<Rightarrow> client" where
  "updateOverview s =
     s\<lparr> totalTasks := length (tasks s),
        completedTasks := length (filter (\<lambda>t. completed t) (tasks s)),
        pendingTasks := length (filter (\<lambda>t. \<not> completed t) (tasks s)) \<rparr>"

text \<open>The \<^verbatim>\<open>forEach\<close> of \<^verbatim>\<open>renderCalendar\<close>, adding to the events already there.\<close>

fun addEvents :: "task list \<Rightarrow> marker list \<Rightarrow> marker list" where
  "addEvents [] evs = evs"
| "addEvents (t # ts) evs =
     (case reminder t of
        None \<Rightarrow> addEvents ts evs
      | Some r \<Rightarrow>
          if r \<noteq> [] then addEvents ts (evs @ [\<lparr> ev_id = ident t, ev_start = r \<rparr>])
          else addEvents ts evs)"

definition renderCalendar :: "client \<Rightarrow> client" where
  "renderCalendar s = s\<lparr> calendar := addEvents (tasks s) [] \<rparr>"

definition on_day :: "string \<Rightarrow> task \<Rightarrow> bool" where
  "on_day dateStr t = (truthy (reminder t) \<and> (case reminder t of None \<Rightarrow> False | Some r \<Rightarrow> prefix dateStr r))"

definition day_task_row :: "nat \<times> task \<Rightarrow> day_row" where
  "day_task_row it =
     (case it of (i, t) \<Rightarrow>
        \<lparr> day_ordinal = i + 1, day_description = description t, day_reminder = reminder t \<rparr>)"

definition showDayTasks :: "string \<Rightarrow> client \<Rightarrow> client" where
  "showDayTasks dateStr s =
     (let day = filter (on_day dateStr) (tasks s)
      in s\<lparr> dayTasks := map day_task_row (enumerate 0 day) \<rparr>)"

text \<open>The three calls that follow most mutations.\<close>

definition render_all :: "client \<Rightarrow> client" where
  "render_all s = updateOverview (renderCalendar (renderTasks s))"

subsection \<open>CRUD\<close>

text \<open>\<^verbatim>\<open>addTask(description, reminder = null)\<close>. From the chat the description may be
  \<^verbatim>\<open>undefined\<close>, hence the option.\<close>

definition addTask ::
  "string option \<Rightarrow> string option \<Rightarrow> (bool \<times> task) response \<Rightarrow> client \<Rightarrow> client" where
  "addTask desc rem resp s =
     (case desc of
        None \<Rightarrow> s
      | Some d \<Rightarrow>
          if d = [] then s
          else
            (let s1 = fetch (POST_tasks d rem) s
             in case resp of
                  Rejected \<Rightarrow> showToast ''Failed to add task'' (console_error FetchError s1)
                | Json (ok, t) \<Rightarrow>
                    if ok then showToast ''Task added'' (render_all (s1\<lparr> tasks := tasks s1 @ [t] \<rparr>))
                    else s1))"

text \<open>\<^verbatim>\<open>addTask\<close> is not awaited: the inputs are cleared while the request is pending. The
  continuation of \<^verbatim>\<open>addTask\<close> does not read them, so the order is immaterial.\<close>

definition addTaskFromUI :: "(bool \<times> task) response \<Rightarrow> client \<Rightarrow> client" where
  "addTaskFromUI resp s =
     (let desc = trim (taskInput s); date = dateInput s; time = timeInput s
      in if desc = [] then showToast ''Enter task description'' s
         else
           (let rem = (if date \<noteq> []
                       then (if time \<noteq> [] then Some (date @ ''T'' @ time) else Some (date @ ''T00:00''))
                       else None);
                s1 = addTask (Some desc) rem resp s
            in s1\<lparr> taskInput := [], dateInput := [], timeInput := [] \<rparr>))"

definition toggleComplete :: "int \<Rightarrow> (bool \<times> patch) response \<Rightarrow> client \<Rightarrow> client" where
  "toggleComplete i resp s =
     (case find (\<lambda>t. ident t = i) (tasks s) of
        None \<Rightarrow> s
      | Some t \<Rightarrow>
          (let s1 = fetch (PATCH_completed i (\<not> completed t)) s
           in case resp of
                Rejected \<Rightarrow> console_error FetchError s1
              | Json (ok, p) \<Rightarrow>
                  if ok then updateOverview (renderTasks (s1\<lparr> tasks := assign_found i p (tasks s1) \<rparr>))
                  else s1))"

text \<open>The two \<^verbatim>\<open>prompt\<close> answers are arguments: \<^verbatim>\<open>None\<close> is Cancel.\<close>

definition editTask ::
  "int \<Rightarrow> string option \<Rightarrow> string option \<Rightarrow> (bool \<times> patch) response \<Rightarrow> client \<Rightarrow> client" where
  "editTask i newDesc newReminder resp s =
     (case find (\<lambda>t. ident t = i) (tasks s) of
        None \<Rightarrow> s
      | Some t \<Rightarrow>
          (case newDesc of
             None \<Rightarrow> s
           | Some d \<Rightarrow>
               (let s1 = fetch (PATCH_edit i (trim d) (if truthy newReminder then newReminder else None)) s
                in case resp of
                     Rejected \<Rightarrow> console_error FetchError s1
                   | Json (ok, p) \<Rightarrow>
                       if ok then showToast ''Task updated''
                                    (render_all (s1\<lparr> tasks := assign_found i p (tasks s1) \<rparr>))
                       else s1)))"

text \<open>\<^verbatim>\<open>deleteTask\<close> in two halves, cut at its \<^verbatim>\<open>await\<close>: what runs up to and including the
  call of \<^verbatim>\<open>fetch\<close> (\<^verbatim>\<open>None\<close>: the function returned before), and what runs once the request
  has settled.\<close>

definition deleteTask_send :: "int \<Rightarrow> client \<Rightarrow> client option" where
  "deleteTask_send i s =
     (case find (\<lambda>t. ident t = i) (tasks s) of
        None \<Rightarrow> None
      | Some t \<Rightarrow> Some (fetch (DELETE_task i) (s\<lparr> deletedTask := Some t \<rparr>)))"

definition deleteTask_settle :: "int \<Rightarrow> bool response \<Rightarrow> client \<Rightarrow> client" where
  "deleteTask_settle i resp s1 =
     (case resp of
        Rejected \<Rightarrow> console_error FetchError s1
      | Json ok \<Rightarrow>
          if ok then showToast ''Task deleted''
                       (render_all (s1\<lparr> tasks := filter (\<lambda>t. ident t \<noteq> i) (tasks s1) \<rparr>))
          else s1)"

definition deleteTask :: "int \<Rightarrow> bool response \<Rightarrow> client \<Rightarrow> client" where
  "deleteTask i resp s =
     (case deleteTask_send i s of
        None \<Rightarrow> s
      | Some s1 \<Rightarrow> deleteTask_settle i resp s1)"

definition undoDelete :: "(bool \<times> task) response \<Rightarrow> client \<Rightarrow> client" where
  "undoDelete resp s =
     (case deletedTask s of
        None \<Rightarrow> showToast ''Nothing to undo'' s
      | Some _ \<Rightarrow>
          (let s1 = fetch POST_undo_delete s
           in case resp of
                Rejected \<Rightarrow> console_error FetchError s1
              | Json (ok, t) \<Rightarrow>
                  if ok then showToast ''Restored last deleted task''
                               ((render_all (s1\<lparr> tasks := tasks s1 @ [t] \<rparr>))\<lparr> deletedTask := None \<rparr>)
                  else s1))"

text \<open>The answer to \<^verbatim>\<open>confirm("Delete all tasks?")\<close> is the first argument.\<close>

definition resetTasks :: "bool \<Rightarrow> bool response \<Rightarrow> client \<Rightarrow> client" where
  "resetTasks confirmed resp s =
     (if \<not> confirmed then s
      else
        (let s1 = fetch DELETE_reset s
         in case resp of
              Rejected \<Rightarrow> console_error FetchError s1
            | Json ok \<Rightarrow>
                if ok then showToast ''All tasks cleared'' (render_all (s1\<lparr> tasks := [] \<rparr>))
                else s1))"

text \<open>\<^verbatim>\<open>data.tasks || []\<close>: the body may lack the field.\<close>

definition loadTasks :: "task list option response \<Rightarrow> client \<Rightarrow> client" where
  "loadTasks resp s =
     (let s1 = fetch GET_tasks s
      in case resp of
           Rejected \<Rightarrow> showToast ''Failed to load tasks'' (console_error FetchError s1)
         | Json d \<Rightarrow> render_all (s1\<lparr> tasks := (case d of None \<Rightarrow> [] | Some ts \<Rightarrow> ts) \<rparr>))"

subsection \<open>Chat\<close>

text \<open>The emoji of the script's messages are written as their code points.\<close>

definition CHECK_MARK :: string where "CHECK_MARK = ''[U+2705]''"
definition CLIPBOARD :: string where "CLIPBOARD = ''[U+1F4CB]''"
definition WARNING_SIGN :: string where "WARNING_SIGN = ''[U+26A0]''"
definition WASTEBASKET :: string where "WASTEBASKET = ''[U+1F5D1]''"
definition RECYCLING :: string where "RECYCLING = ''[U+267B]''"

definition appendMessage :: "chat_text \<Rightarrow> who \<Rightarrow> client \<Rightarrow> client" where
  "appendMessage text w s = s\<lparr> chatMessages := chatMessages s @ [(w, text)] \<rparr>"

text \<open>
  \<^verbatim>\<open>getTaskIdByNumber(number)\<close>. With \<^verbatim>\<open>number\<close> undefined, \<^verbatim>\<open>idx\<close> is NaN, both
  comparisons are false, \<^verbatim>\<open>tasks[NaN]\<close> is undefined and reading its \<^verbatim>\<open>id\<close> throws.
\<close>

definition getTaskIdByNumber :: "int option \<Rightarrow> client \<Rightarrow> error + int option" where
  "getTaskIdByNumber number s =
     (case number of
        None \<Rightarrow> Inl TypeError
      | Some n \<Rightarrow>
          (let idx = n - 1
           in if idx < 0 \<or> idx \<ge> int (length (tasks s)) then Inr None
              else Inr (Some (ident (tasks s ! nat idx)))))"

text \<open>The \<^verbatim>\<open>arguments\<close> object; \<^verbatim>\<open>arg_description\<close> and \<^verbatim>\<open>arg_reminder\<close> are its
  \<^verbatim>\<open>description\<close> and \<^verbatim>\<open>reminder\<close> keys.\<close>

record args =
  arg_description :: "string option"
  arg_reminder :: "string option"
  task_number :: "int option"
  task_id :: "int option"

text \<open>The envelope; \<^verbatim>\<open>function_name\<close> is its \<^verbatim>\<open>function\<close> key.\<close>

record action =
  function_name :: "string option"
  reply :: "string option"
  arguments :: "args option"

text \<open>\<^verbatim>\<open>a || b\<close> on numbers that may be absent: 0 is falsy.\<close>

definition or_number :: "int option \<Rightarrow> int option \<Rightarrow> int option" where
  "or_number a b = (case a of None \<Rightarrow> b | Some n \<Rightarrow> if n \<noteq> 0 then Some n else b)"

definition template_string :: "string option \<Rightarrow> string" where
  "template_string x = (case x of None \<Rightarrow> ''undefined'' | Some v \<Rightarrow> v)"

text \<open>\<^verbatim>\<open>err.message\<close>; the wording is the engine's.\<close>

definition message :: "error \<Rightarrow> string" where
  "message e = (case e of FetchError \<Rightarrow> ''Failed to fetch''
                        | TypeError \<Rightarrow> ''Cannot read properties of undefined'')"

text \<open>
  What the chat handler's one operation may meet: the outcome of the request it sends and,
  for \<^verbatim>\<open>resetAll\<close>, the answer to the confirmation dialog.
\<close>

record env =
  add_reply :: "(bool \<times> task) response"
  patch_reply :: "(bool \<times> patch) response"
  delete_reply :: "bool response"
  undo_reply :: "(bool \<times> task) response"
  reset_reply :: "bool response"
  confirm_reset :: bool

text \<open>How the \<^verbatim>\<open>switch\<close> inside the \<^verbatim>\<open>try\<close> block is left. The test \<^verbatim>\<open>!realId\<close> holds for
  \<^verbatim>\<open>null\<close> and for the id 0, so both take the \<^verbatim>\<open>return\<close>.\<close>

datatype control = Break client | Return client | Throw error client

fun view_lines :: "(nat \<times> task) list \<Rightarrow> client \<Rightarrow> client" where
  "view_lines [] s = s"
| "view_lines ((i, t) # its) s =
     view_lines its
       (appendMessage
          (TaskLine (i + 1) (description t) (if truthy (reminder t) then reminder t else None)) AI s)"

definition switch_fn :: "string \<Rightarrow> action \<Rightarrow> args \<Rightarrow> env \<Rightarrow> client \<Rightarrow> control" where
  "switch_fn fn act a e s =
     (if fn = ''addTask'' then
        Break (appendMessage (Plain (CHECK_MARK @ '' Added task: '' @ template_string (arg_description a))) AI
                 (addTask (arg_description a) (arg_reminder a) (add_reply e) s))
      else if fn = ''viewTasks'' then
        Break (if tasks s = [] then appendMessage (Plain (CLIPBOARD @ '' No tasks yet.'')) AI s
               else view_lines (enumerate 0 (tasks s)) s)
      else if fn = ''completeTask'' then
        (case getTaskIdByNumber (or_number (task_number a) (task_id a)) s of
           Inl err \<Rightarrow> Throw err s
         | Inr None \<Rightarrow> Return (appendMessage (Plain (WARNING_SIGN @ '' Invalid task number.'')) AI s)
         | Inr (Some realId) \<Rightarrow>
             if realId = 0 then
               Return (appendMessage (Plain (WARNING_SIGN @ '' Invalid task number.'')) AI s)
             else
               Break (appendMessage
                        (NumberLine (CHECK_MARK @ '' Toggled completion of task #'')
                           (or_number (task_number a) (task_id a))) AI
                        (toggleComplete realId (patch_reply e) s)))
      else if fn = ''deleteTask'' then
        (case getTaskIdByNumber (or_number (task_number a) (task_id a)) s of
           Inl err \<Rightarrow> Throw err s
         | Inr None \<Rightarrow> Return (appendMessage (Plain (WARNING_SIGN @ '' Invalid task number.'')) AI s)
         | Inr (Some realId) \<Rightarrow>
             if realId = 0 then
               Return (appendMessage (Plain (WARNING_SIGN @ '' Invalid task number.'')) AI s)
             else
               Break (appendMessage
                        (NumberLine (WASTEBASKET @ '' Deleted task #'')
                           (or_number (task_number a) (task_id a))) AI
                        (deleteTask realId (delete_reply e) s)))
      else if fn = ''undoDelete'' then
        Break (appendMessage (Plain (RECYCLING @ '' Restored last deleted task'')) AI
                 (undoDelete (undo_reply e) s))
      else if fn = ''resetAll'' then
        Break (appendMessage (Plain (WASTEBASKET @ '' Cleared all tasks'')) AI
                 (resetTasks (confirm_reset e) (reset_reply e) s))
      else
        Break (case reply act of
                 None \<Rightarrow> s
               | Some r \<Rightarrow> if r \<noteq> [] then appendMessage (Plain r) AI s else s))"

definition empty_args :: args where
  "empty_args = \<lparr> arg_description = None, arg_reminder = None, task_number = None, task_id = None \<rparr>"

definition handleChatAction :: "action option \<Rightarrow> env \<Rightarrow> client \<Rightarrow> client" where
  "handleChatAction action e s =
     (case action of
        None \<Rightarrow> s
      | Some act \<Rightarrow>
          (case function_name act of
             None \<Rightarrow>
               (case reply act of
                  None \<Rightarrow> s
                | Some r \<Rightarrow> if r \<noteq> [] then appendMessage (Plain r) AI s else s)
           | Some fn \<Rightarrow>
               if fn = [] then
                 (case reply act of
                    None \<Rightarrow> s
                  | Some r \<Rightarrow> if r \<noteq> [] then appendMessage (Plain r) AI s else s)
               else
                 (let a = (case arguments act of None \<Rightarrow> empty_args | Some x \<Rightarrow> x)
                  in case switch_fn fn act a e s of
                       Break s1 \<Rightarrow> render_all s1
                     | Return s1 \<Rightarrow> s1
                     | Throw err s1 \<Rightarrow>
                         appendMessage (Plain (WARNING_SIGN @ '' '' @ message err)) AI
                           (console_error err s1))))"

definition sendMessage :: "(bool \<times> action option) response \<Rightarrow> env \<Rightarrow> client \<Rightarrow> client" where
  "sendMessage resp e s =
     (let msg = trim (chatInput s)
      in if msg = [] then s
         else
           (let s1 = fetch (POST_chat msg) ((appendMessage (Plain msg) User s)\<lparr> chatInput := [] \<rparr>)
            in case resp of
                 Rejected \<Rightarrow>
                   appendMessage (Plain (WARNING_SIGN @ '' Error'')) AI (console_error FetchError s1)
               | Json (ok, result) \<Rightarrow>
                   if \<not> ok then appendMessage (Plain (WARNING_SIGN @ '' Error'')) AI s1
                   else handleChatAction result e s1))"

definition clearChat :: "client \<Rightarrow> client" where
  "clearChat s = s\<lparr> chatMessages := [] \<rparr>"

subsection \<open>The page as an event loop\<close>

text \<open>
  The handlers installed at \<^verbatim>\<open>DOMContentLoaded\<close> and by the rendered rows, one constructor
  per kind of event, each with the user's input and the outcome of the request it causes.
\<close>

datatype event =
    Load "task list option response"
  | TypeTask string string string
  | AddClick "(bool \<times> task) response"
  | ToggleClick int "(bool \<times> patch) response"
  | EditClick int "string option" "string option" "(bool \<times> patch) response"
  | DeleteClick int "bool response"
  | UndoClick "(bool \<times> task) response"
  | ResetClick bool "bool response"
  | DateClick string
  | TypeChat string
  | SendClick "(bool \<times> action option) response" env
  | ClearChatClick

fun fire :: "event \<Rightarrow> client \<Rightarrow> client" where
  "fire (Load resp) s = loadTasks resp s"
| "fire (TypeTask d dt tm) s = s\<lparr> taskInput := d, dateInput := dt, timeInput := tm \<rparr>"
| "fire (AddClick resp) s = addTaskFromUI resp s"
| "fire (ToggleClick i resp) s = toggleComplete i resp s"
| "fire (EditClick i newDesc newReminder resp) s = editTask i newDesc newReminder resp s"
| "fire (DeleteClick i resp) s = deleteTask i resp s"
| "fire (UndoClick resp) s = undoDelete resp s"
| "fire (ResetClick confirmed resp) s = resetTasks confirmed resp s"
| "fire (DateClick dateStr) s = showDayTasks dateStr s"
| "fire (TypeChat m) s = s\<lparr> chatInput := m \<rparr>"
| "fire (SendClick resp e) s = sendMessage resp e s"
| "fire ClearChatClick s = clearChat s"

fun exec :: "event list \<Rightarrow> client \<Rightarrow> client" where
  "exec [] s = s"
| "exec (ev # evs) s = exec evs (fire ev s)"

text \<open>The globals as lines 1 to 3 and the \<^verbatim>\<open>FullCalendar\<close> constructor leave them. What the
  page's markup puts into the DOM nodes is not constrained.\<close>

definition page_loaded :: "client \<Rightarrow> bool" where
  "page_loaded s = (tasks s = [] \<and> deletedTask s = None \<and> calendar s = [])"

subsection \<open>Predicates used in the statements\<close>

text \<open>The array is in ascending order of id.\<close>

definition tasks_sorted :: "client \<Rightarrow> bool" where
  "tasks_sorted s = sorted (map ident (tasks s))"

text \<open>The counters show what \<^verbatim>\<open>updateOverview\<close> computes from the current array.\<close>

definition counters_ok :: "client \<Rightarrow> bool" where
  "counters_ok s =
     (totalTasks s = length (tasks s) \<and>
      completedTasks s = length (filter (\<lambda>t. completed t) (tasks s)) \<and>
      pendingTasks s = length (filter (\<lambda>t. \<not> completed t) (tasks s)))"

text \<open>The list shows the rows \<^verbatim>\<open>renderTasks\<close> builds from the current array.\<close>

definition list_ok :: "client \<Rightarrow> bool" where
  "list_ok s = (tasks_sorted s \<and> taskList s = map task_row (enumerate 0 (tasks s)))"

text \<open>List and counters both show the current array.\<close>

definition page_ok :: "client \<Rightarrow> bool" where
  "page_ok s = (list_ok s \<and> counters_ok s)"

text \<open>List, calendar and counters show the current array: running the three render
  functions again changes nothing.\<close>

definition rendered :: "client \<Rightarrow> bool" where
  "rendered s = (render_all s = s)"

text \<open>The test of \<^verbatim>\<open>renderCalendar\<close> for a task to get a marker.\<close>

definition has_reminder :: "task \<Rightarrow> bool" where
  "has_reminder t = truthy (reminder t)"

text \<open>The display number a chat action carries: \<^verbatim>\<open>args.task_number || args.task_id\<close>, with
  \<^verbatim>\<open>args = action.arguments || {}\<close>.\<close>

definition chat_number :: "action \<Rightarrow> int option" where
  "chat_number act =
     (let a = (case arguments act of None \<Rightarrow> empty_args | Some x \<Rightarrow> x)
      in or_number (task_number a) (task_id a))"

text \<open>The number of a \<^verbatim>\<open>completeTask\<close> or \<^verbatim>\<open>deleteTask\<close> action leads to no operation: it is
  missing, out of range, or the id found is 0.\<close>

definition abandoned :: "action \<Rightarrow> client \<Rightarrow> bool" where
  "abandoned act s =
     (case getTaskIdByNumber (chat_number act) s of
        Inl _ \<Rightarrow> True
      | Inr None \<Rightarrow> True
      | Inr (Some i) \<Rightarrow> i = 0)"

definition invalid_number :: chat_text where
  "invalid_number = Plain (WARNING_SIGN @ '' Invalid task number.'')"

subsection \<open>Sample data\<close>

definition blank :: client where
  "blank =
     \<lparr> tasks = [], deletedTask = None, calendar = [], taskList = [],
       totalTasks = 0, completedTasks = 0, pendingTasks = 0, dayTasks = [],
       chatMessages = [], taskInput = [], dateInput = [], timeInput = [], chatInput = [],
       toast = [], console = [], requests = [] \<rparr>"

definition milk :: task where
  "milk = \<lparr> ident = 1, description = ''Buy milk'', completed = False,
            reminder = Some ''2024-03-01T09:00'' \<rparr>"

definition walk :: task where
  "walk = \<lparr> ident = 2, description = ''Walk dog'', completed = False, reminder = None \<rparr>"

definition rent :: task where
  "rent = \<lparr> ident = 7, description = ''Pay rent'', completed = True,
            reminder = Some ''2024-03-05T00:00'' \<rparr>"

definition first_task :: task where
  "first_task = \<lparr> ident = 0, description = ''Call mum'', completed = False, reminder = None \<rparr>"

definition no_patch :: patch where
  "no_patch = \<lparr> p_ident = None, p_description = None, p_completed = None, p_reminder = None \<rparr>"

text \<open>A server that refuses everything, and a user who declines the reset.\<close>

definition offline :: env where
  "offline =
     \<lparr> add_reply = Rejected, patch_reply = Rejected, delete_reply = Rejected,
       undo_reply = Rejected, reset_reply = Rejected, confirm_reset = False \<rparr>"

definition chat_action :: "string \<Rightarrow> args \<Rightarrow> action" where
  "chat_action fn a = \<lparr> function_name = Some fn, reply = None, arguments = Some a \<rparr>"

text \<open>A server that accepts everything: it marks the task completed and gives it a reminder
  on a PATCH, and stores a description of three spaces as it comes.\<close>

definition spaces_task :: task where
  "spaces_task = \<lparr> ident = 3, description = ''   '', completed = False, reminder = None \<rparr>"

definition done_patch :: patch where
  "done_patch = no_patch\<lparr> p_completed := Some True, p_reminder := Some (Some ''2024-03-01T09:00'') \<rparr>"

definition accepting :: env where
  "accepting =
     \<lparr> add_reply = Json (True, spaces_task), patch_reply = Json (True, done_patch),
       delete_reply = Json True, undo_reply = Json (True, milk), reset_reply = Json True,
       confirm_reset = True \<rparr>"

definition number_arg :: "int \<Rightarrow> args" where
  "number_arg n = empty_args\<lparr> task_number := Some n \<rparr>"

text \<open>The list, the counters and the calendar after the page has loaded one task without a
  reminder and a click on its toggle button has brought back a reminder for it:
  \<^verbatim>\<open>toggleComplete\<close> redraws the list and the counters, not the calendar.\<close>

definition stale_calendar :: client where
  "stale_calendar = exec [Load (Json (Some [walk])), ToggleClick 2 (Json (True, done_patch))] blank"

text \<open>The six function names the handler knows.\<close>

definition known_functions :: "string list" where
  "known_functions =
     [''addTask'', ''viewTasks'', ''completeTask'', ''deleteTask'', ''undoDelete'', ''resetAll'']"

section \<open>Properties\<close>

subsection \<open>What each building block leaves alone\<close>

lemmas effect_defs =
  showToast_def console_error_def fetch_def appendMessage_def clearChat_def

lemma render_all_eq:
  "render_all s =
     s\<lparr> tasks := sort_key ident (tasks s),
        taskList := map task_row (enumerate 0 (sort_key ident (tasks s))),
        calendar := addEvents (sort_key ident (tasks s)) [],
        totalTasks := length (sort_key ident (tasks s)),
        completedTasks := length (filter (\<lambda>t. completed t) (sort_key ident (tasks s))),
        pendingTasks := length (filter (\<lambda>t. \<not> completed t) (sort_key ident (tasks s))) \<rparr>"
  by (simp add: render_all_def renderTasks_def renderCalendar_def updateOverview_def Let_def)

lemma sort_key_twice: "sort_key ident (sort_key ident ts) = sort_key ident ts"
  by (simp add: sort_key_id_if_sorted)

lemma rendered_render_all: "rendered (render_all s)"
  unfolding rendered_def by (simp add: render_all_eq sort_key_twice)

lemma tasks_simps [simp]:
  "tasks (showToast m s) = tasks s"
  "tasks (console_error er s) = tasks s"
  "tasks (fetch r s) = tasks s"
  "tasks (appendMessage x w s) = tasks s"
  "tasks (clearChat s) = tasks s"
  "tasks (showDayTasks d s) = tasks s"
  "tasks (renderCalendar s) = tasks s"
  "tasks (updateOverview s) = tasks s"
  "tasks (renderTasks s) = sort_key ident (tasks s)"
  "tasks (render_all s) = sort_key ident (tasks s)"
  by (simp_all add: effect_defs showDayTasks_def renderCalendar_def updateOverview_def
      renderTasks_def render_all_def Let_def)

lemma view_lines_tasks [simp]: "tasks (view_lines its s) = tasks s"
  by (induction its s rule: view_lines.induct) simp_all

subsection \<open>The array stays sorted\<close>











text \<open>The handler's exits.\<close>

lemma switch_fn_cases:
  "(\<exists>s1. switch_fn fn act a e s = Break s1) \<or>
   switch_fn fn act a e s = Return (appendMessage invalid_number AI s) \<or>
   (\<exists>err. switch_fn fn act a e s = Throw err s)"
  by (simp add: switch_fn_def invalid_number_def split: sum.split option.split)






lemma page_loaded_sorted: "page_loaded s \<Longrightarrow> tasks_sorted s"
  by (simp add: page_loaded_def tasks_sorted_def)

subsection \<open>Rendering\<close>

lemma task_row_simps [simp]:
  "ordinal (task_row (i, t)) = Suc i"
  "row_ident (task_row (i, t)) = ident t"
  "row_completed (task_row (i, t)) = completed t"
  "row_description (task_row (i, t)) = description t"
  by (simp_all add: task_row_def)

lemma map_ordinal_rows: "map ordinal (map task_row (enumerate n ts)) = [Suc n ..< Suc (n + length ts)]"
proof -
  have "map ordinal (map task_row (enumerate n ts)) = map Suc (map fst (enumerate n ts))"
    by (induction ts arbitrary: n) simp_all
  also have "\<dots> = [Suc n ..< Suc (n + length ts)]"
    by (simp add: map_Suc_upt)
  finally show ?thesis .
qed

lemma map_row_ident_rows: "map row_ident (map task_row (enumerate n ts)) = map ident ts"
  by (induction ts arbitrary: n) simp_all

lemma map_insort_key: "map f (insort_key f x xs) = insort (f x) (map f xs)"
  by (induction xs) simp_all

lemma map_sort_key: "map f (sort_key f xs) = sort (map f xs)"
  by (induction xs) (simp_all add: map_insort_key)

text \<open>
  C3. Whatever events came before, the list that \<^verbatim>\<open>renderTasks\<close> draws is in ascending order
  of id, holds exactly the ids of the tasks, and the number shown in a row is its 1-based
  position in that order: the numbers read 1, 2, ..., n from top to bottom.
\<close>

theorem renderTasks_sorted_ranked:
  "sorted (map row_ident (taskList (renderTasks (exec evs s)))) \<and>
   map ordinal (taskList (renderTasks (exec evs s))) = [1 ..< Suc (length (tasks (exec evs s)))] \<and>
   map row_ident (taskList (renderTasks (exec evs s))) = sort (map ident (tasks (exec evs s)))"
proof -
  define ts where "ts = tasks (exec evs s)"
  have rows: "taskList (renderTasks (exec evs s)) = map task_row (enumerate 0 (sort_key ident ts))"
    by (simp add: renderTasks_def Let_def ts_def)
  have ids: "map row_ident (taskList (renderTasks (exec evs s))) = sort (map ident ts)"
    unfolding rows by (simp only: map_row_ident_rows map_sort_key)
  have ords: "map ordinal (taskList (renderTasks (exec evs s))) = [1 ..< Suc (length ts)]"
    unfolding rows by (simp only: map_ordinal_rows length_sort) simp
  have "sorted (sort (map ident ts))"
    by simp
  with ids ords show ?thesis
    by (simp add: ts_def)
qed

text \<open>The number shown is the position, not the id.\<close>

lemma renderTasks_example:
  "map (\<lambda>r. (ordinal r, row_ident r, row_description r))
     (taskList (renderTasks (blank\<lparr> tasks := [rent, walk] \<rparr>))) =
   [(1, 2, ''Walk dog''), (2, 7, ''Pay rent'')]"
  by (simp add: renderTasks_def blank_def rent_def walk_def Let_def task_row_def enumerate_eq_zip)

lemma list_ok_render_all: "list_ok (render_all s)"
  by (simp add: list_ok_def tasks_sorted_def render_all_eq)

subsection \<open>Counters\<close>

text \<open>
  C4. \<^verbatim>\<open>updateOverview\<close> leaves the array, the list, the calendar and \<^verbatim>\<open>deletedTask\<close> as
  they are and writes the three counters: the length of the array, the number of its
  completed tasks and the number of its tasks not completed. The first is the sum of the
  other two, and what the counters showed before has no influence on the result.
\<close>

theorem updateOverview_counters:
  "tasks (updateOverview s) = tasks s \<and>
   taskList (updateOverview s) = taskList s \<and>
   calendar (updateOverview s) = calendar s \<and>
   deletedTask (updateOverview s) = deletedTask s \<and>
   totalTasks (updateOverview s) = length (tasks s) \<and>
   completedTasks (updateOverview s) = length (filter (\<lambda>t. completed t) (tasks s)) \<and>
   pendingTasks (updateOverview s) = length (filter (\<lambda>t. \<not> completed t) (tasks s)) \<and>
   totalTasks (updateOverview s) = completedTasks (updateOverview s) + pendingTasks (updateOverview s) \<and>
   updateOverview (s\<lparr> totalTasks := a, completedTasks := b, pendingTasks := c \<rparr>) = updateOverview s"
  by (simp add: updateOverview_def sum_length_filter_compl)

text \<open>The counters of the spec's example: one task, completed by the toggle.\<close>

lemma updateOverview_example:
  "(totalTasks (updateOverview (blank\<lparr> tasks := [milk\<lparr> completed := True \<rparr>, walk] \<rparr>)),
    completedTasks (updateOverview (blank\<lparr> tasks := [milk\<lparr> completed := True \<rparr>, walk] \<rparr>)),
    pendingTasks (updateOverview (blank\<lparr> tasks := [milk\<lparr> completed := True \<rparr>, walk] \<rparr>)))
   = (2, 1, 1)"
  by (simp add: updateOverview_def blank_def milk_def walk_def)

subsection \<open>Delete, undo, reset\<close>

text \<open>
  C6. When \<^verbatim>\<open>deleteTask(id)\<close> finds the id, the found task is already in \<^verbatim>\<open>deletedTask\<close>
  at the moment the DELETE request is handed to \<^verbatim>\<open>fetch\<close>, and it is still there when the
  function has finished, whatever the outcome of the request (rejected, \<^verbatim>\<open>ok: false\<close> or
  \<^verbatim>\<open>ok: true\<close>). Unless the reply is \<^verbatim>\<open>ok: true\<close> the array is unchanged; when it is,
  the array keeps exactly the tasks with another id and the found task is gone.
\<close>

theorem deleteTask_snapshot:
  assumes "find (\<lambda>u. ident u = i) (tasks s) = Some t"
  shows "deleteTask_send i s = Some (fetch (DELETE_task i) (s\<lparr> deletedTask := Some t \<rparr>)) \<and>
         deletedTask (deleteTask i resp s) = Some t \<and>
         requests (deleteTask i resp s) = requests s @ [DELETE_task i] \<and>
         (resp \<noteq> Json True \<longrightarrow> tasks (deleteTask i resp s) = tasks s) \<and>
         tasks (deleteTask i (Json True) s) = sort_key ident (filter (\<lambda>u. ident u \<noteq> i) (tasks s)) \<and>
         t \<notin> set (tasks (deleteTask i (Json True) s))"
proof -
  have idt: "ident t = i"
    using assms by (auto simp: find_Some_iff)
  have send: "deleteTask_send i s = Some (fetch (DELETE_task i) (s\<lparr> deletedTask := Some t \<rparr>))"
    using assms by (simp add: deleteTask_send_def)
  have del: "deletedTask (deleteTask i resp s) = Some t"
    by (simp add: deleteTask_def send deleteTask_settle_def render_all_eq effect_defs
        split: response.split)
  have req: "requests (deleteTask i resp s) = requests s @ [DELETE_task i]"
    by (simp add: deleteTask_def send deleteTask_settle_def render_all_eq effect_defs
        split: response.split)
  have keep: "resp \<noteq> Json True \<longrightarrow> tasks (deleteTask i resp s) = tasks s"
    by (simp add: deleteTask_def send deleteTask_settle_def effect_defs split: response.split)
  have gone: "tasks (deleteTask i (Json True) s) = sort_key ident (filter (\<lambda>u. ident u \<noteq> i) (tasks s))"
    by (simp add: deleteTask_def send deleteTask_settle_def effect_defs)
  have "t \<notin> set (tasks (deleteTask i (Json True) s))"
    unfolding gone using idt by simp
  with send del req keep gone show ?thesis
    by blast
qed

theorem deleteTask_snapshot_witness:
  "find (\<lambda>u. ident u = 1) (tasks (blank\<lparr> tasks := [milk, walk] \<rparr>)) = Some milk \<and>
   deletedTask (deleteTask 1 Rejected (blank\<lparr> tasks := [milk, walk] \<rparr>)) = Some milk \<and>
   tasks (deleteTask 1 Rejected (blank\<lparr> tasks := [milk, walk] \<rparr>)) = [milk, walk] \<and>
   deletedTask (deleteTask 1 (Json True) (blank\<lparr> tasks := [milk, walk] \<rparr>)) = Some milk \<and>
   tasks (deleteTask 1 (Json True) (blank\<lparr> tasks := [milk, walk] \<rparr>)) = [walk]"
proof -
  have h: "find (\<lambda>u. ident u = 1) (tasks (blank\<lparr> tasks := [milk, walk] \<rparr>)) = Some milk"
    by (simp add: blank_def milk_def)
  show ?thesis
    using h deleteTask_snapshot [OF h, of Rejected] deleteTask_snapshot [OF h, of "Json True"]
    by (simp add: blank_def milk_def walk_def)
qed

lemma deleteTask_not_found:
  "find (\<lambda>u. ident u = i) (tasks s) = None \<Longrightarrow> deleteTask i resp s = s"
  by (simp add: deleteTask_def deleteTask_send_def)

text \<open>
  C7. With \<^verbatim>\<open>deletedTask\<close> empty, \<^verbatim>\<open>undoDelete\<close> shows the toast "Nothing to undo" and does
  nothing else: no request is sent, the tasks and every other part of the state stay as
  they were.
\<close>

theorem undoDelete_nothing:
  assumes "deletedTask s = None"
  shows "undoDelete resp s = s\<lparr> toast := toast s @ [''Nothing to undo''] \<rparr> \<and>
         requests (undoDelete resp s) = requests s \<and>
         tasks (undoDelete resp s) = tasks s \<and>
         deletedTask (undoDelete resp s) = None"
  using assms by (simp add: undoDelete_def showToast_def)

theorem undoDelete_nothing_witness:
  "deletedTask blank = None \<and>
   toast (undoDelete (Json (True, milk)) blank) = [''Nothing to undo''] \<and>
   requests (undoDelete (Json (True, milk)) blank) = [] \<and>
   tasks (undoDelete (Json (True, milk)) blank) = []"
proof -
  have h: "deletedTask blank = None"
    by (simp add: blank_def)
  show ?thesis
    using h undoDelete_nothing [OF h, of "Json (True, milk)"]
    by (simp add: blank_def)
qed




subsection \<open>Chat numbers\<close>

lemma handleChatAction_switch:
  "function_name act = Some fn \<Longrightarrow> fn \<noteq> [] \<Longrightarrow>
   handleChatAction (Some act) e s =
     (case switch_fn fn act (case arguments act of None \<Rightarrow> empty_args | Some x \<Rightarrow> x) e s of
        Break s1 \<Rightarrow> render_all s1
      | Return s1 \<Rightarrow> s1
      | Throw err s1 \<Rightarrow> appendMessage (Plain (WARNING_SIGN @ '' '' @ message err)) AI (console_error err s1))"
  by (simp add: handleChatAction_def Let_def)

lemma switch_fn_completeTask:
  "switch_fn ''completeTask'' act a e s =
     (case getTaskIdByNumber (or_number (task_number a) (task_id a)) s of
        Inl err \<Rightarrow> Throw err s
      | Inr None \<Rightarrow> Return (appendMessage invalid_number AI s)
      | Inr (Some realId) \<Rightarrow>
          if realId = 0 then Return (appendMessage invalid_number AI s)
          else Break (appendMessage
                        (NumberLine (CHECK_MARK @ '' Toggled completion of task #'')
                           (or_number (task_number a) (task_id a))) AI
                        (toggleComplete realId (patch_reply e) s)))"
  unfolding switch_fn_def invalid_number_def by simp

lemma switch_fn_deleteTask:
  "switch_fn ''deleteTask'' act a e s =
     (case getTaskIdByNumber (or_number (task_number a) (task_id a)) s of
        Inl err \<Rightarrow> Throw err s
      | Inr None \<Rightarrow> Return (appendMessage invalid_number AI s)
      | Inr (Some realId) \<Rightarrow>
          if realId = 0 then Return (appendMessage invalid_number AI s)
          else Break (appendMessage
                        (NumberLine (WASTEBASKET @ '' Deleted task #'')
                           (or_number (task_number a) (task_id a))) AI
                        (deleteTask realId (delete_reply e) s)))"
  unfolding switch_fn_def invalid_number_def by simp

lemma getTaskIdByNumber_out_of_range:
  "n < 1 \<or> int (length (tasks s)) < n \<Longrightarrow> getTaskIdByNumber (Some n) s = Inr None"
  by (auto simp: getTaskIdByNumber_def Let_def)

lemma getTaskIdByNumber_in_range:
  "1 \<le> n \<Longrightarrow> n \<le> int (length (tasks s)) \<Longrightarrow>
   getTaskIdByNumber (Some n) s = Inr (Some (ident (tasks s ! nat (n - 1))))"
  by (auto simp: getTaskIdByNumber_def Let_def)

text \<open>
  C5, as amended. Take a \<^verbatim>\<open>completeTask\<close> action whose \<^verbatim>\<open>task_number\<close> is below 1 or above
  the number of tasks, and suppose that, if \<^verbatim>\<open>task_number\<close> is 0, \<^verbatim>\<open>task_id\<close> is not the
  display number of a task with an id other than 0. Then the handler appends one warning
  line to the transcript, sends no request and changes no task. Unless \<^verbatim>\<open>task_number\<close> is
  0 and \<^verbatim>\<open>task_id\<close> is missing, the line is "Invalid task number." and nothing else in
  the state changes.
\<close>

theorem completeTask_out_of_range:
  assumes "function_name act = Some ''completeTask''"
    and "arguments act = Some a"
    and "task_number a = Some n"
    and "n < 1 \<or> int (length (tasks s)) < n"
    and "n = 0 \<longrightarrow>
           (case task_id a of
              None \<Rightarrow> True
            | Some m \<Rightarrow> m < 1 \<or> int (length (tasks s)) < m \<or> ident (tasks s ! nat (m - 1)) = 0)"
  shows "(\<exists>txt. chatMessages (handleChatAction (Some act) e s)
                  = chatMessages s @ [(AI, Plain (WARNING_SIGN @ txt))]) \<and>
         requests (handleChatAction (Some act) e s) = requests s \<and>
         tasks (handleChatAction (Some act) e s) = tasks s \<and>
         (n \<noteq> 0 \<or> task_id a \<noteq> None \<longrightarrow>
            handleChatAction (Some act) e s = appendMessage invalid_number AI s)"
proof -
  have handler: "handleChatAction (Some act) e s =
      (case getTaskIdByNumber (chat_number act) s of
         Inl err \<Rightarrow> appendMessage (Plain (WARNING_SIGN @ '' '' @ message err)) AI (console_error err s)
       | Inr None \<Rightarrow> appendMessage invalid_number AI s
       | Inr (Some realId) \<Rightarrow>
           if realId = 0 then appendMessage invalid_number AI s
           else render_all (appendMessage
                  (NumberLine (CHECK_MARK @ '' Toggled completion of task #'') (chat_number act)) AI
                  (toggleComplete realId (patch_reply e) s)))"
    using assms(1,2)
    by (simp add: handleChatAction_switch switch_fn_completeTask chat_number_def Let_def
        split: sum.split option.split)
  have number: "chat_number act = (if n \<noteq> 0 then Some n else task_id a)"
    using assms(2,3) by (simp add: chat_number_def or_number_def Let_def)
  have inv: "invalid_number = Plain (WARNING_SIGN @ '' Invalid task number.'')"
    by (simp add: invalid_number_def)
  show ?thesis
  proof (cases "n \<noteq> 0 \<or> task_id a \<noteq> None")
    case False
    then have "getTaskIdByNumber (chat_number act) s = Inl TypeError"
      by (simp add: number getTaskIdByNumber_def)
    then have "handleChatAction (Some act) e s
        = appendMessage (Plain (WARNING_SIGN @ '' '' @ message TypeError)) AI (console_error TypeError s)"
      by (simp add: handler)
    then show ?thesis
      using False by (simp add: appendMessage_def console_error_def)
  next
    case True
    have "getTaskIdByNumber (chat_number act) s = Inr None \<or>
          getTaskIdByNumber (chat_number act) s = Inr (Some 0)"
    proof (cases "n = 0")
      case False
      then show ?thesis
        using assms(4) by (simp add: number getTaskIdByNumber_out_of_range)
    next
      case zero: True
      then obtain m where m: "task_id a = Some m"
        using True by auto
      then have "m < 1 \<or> int (length (tasks s)) < m \<or> ident (tasks s ! nat (m - 1)) = 0"
        using assms(5) zero by simp
      then show ?thesis
        using zero m
        by (auto simp: number getTaskIdByNumber_def Let_def)
    qed
    then have "handleChatAction (Some act) e s = appendMessage invalid_number AI s"
      by (auto simp: handler)
    then show ?thesis
      by (simp add: appendMessage_def inv)
  qed
qed

theorem completeTask_out_of_range_witness:
  "function_name (chat_action ''completeTask'' (number_arg 0)) = Some ''completeTask'' \<and>
   arguments (chat_action ''completeTask'' (number_arg 0)) = Some (number_arg 0) \<and>
   task_number (number_arg 0) = Some 0 \<and>
   ((0::int) < 1 \<or> int (length (tasks (blank\<lparr> tasks := [milk] \<rparr>))) < 0) \<and>
   task_id (number_arg 0) = None \<and>
   length (chatMessages (handleChatAction (Some (chat_action ''completeTask'' (number_arg 0))) accepting
                           (blank\<lparr> tasks := [milk] \<rparr>))) = 1 \<and>
   requests (handleChatAction (Some (chat_action ''completeTask'' (number_arg 0))) accepting
               (blank\<lparr> tasks := [milk] \<rparr>)) = [] \<and>
   tasks (handleChatAction (Some (chat_action ''completeTask'' (number_arg 0))) accepting
            (blank\<lparr> tasks := [milk] \<rparr>)) = [milk] \<and>
   handleChatAction (Some (chat_action ''completeTask'' (number_arg 5))) accepting
     (blank\<lparr> tasks := [milk] \<rparr>) = appendMessage invalid_number AI (blank\<lparr> tasks := [milk] \<rparr>)"
proof -
  have h1: "function_name (chat_action ''completeTask'' (number_arg k)) = Some ''completeTask''" for k
    by (simp add: chat_action_def)
  have h2: "arguments (chat_action ''completeTask'' (number_arg k)) = Some (number_arg k)" for k
    by (simp add: chat_action_def)
  have h3: "task_number (number_arg k) = Some k" for k
    by (simp add: number_arg_def)
  have id0: "task_id (number_arg k) = None" for k
    by (simp add: number_arg_def empty_args_def)
  have h4: "(0::int) < 1 \<or> int (length (tasks (blank\<lparr> tasks := [milk] \<rparr>))) < 0"
    by simp
  have h4': "(5::int) < 1 \<or> int (length (tasks (blank\<lparr> tasks := [milk] \<rparr>))) < 5"
    by simp
  have h5: "(0::int) = 0 \<longrightarrow>
      (case task_id (number_arg 0) of None \<Rightarrow> True
       | Some m \<Rightarrow> m < 1 \<or> int (length (tasks (blank\<lparr> tasks := [milk] \<rparr>))) < m
            \<or> ident (tasks (blank\<lparr> tasks := [milk] \<rparr>) ! nat (m - 1)) = 0)"
    by (simp add: id0)
  have h5': "(5::int) = 0 \<longrightarrow>
      (case task_id (number_arg 5) of None \<Rightarrow> True
       | Some m \<Rightarrow> m < 1 \<or> int (length (tasks (blank\<lparr> tasks := [milk] \<rparr>))) < m
            \<or> ident (tasks (blank\<lparr> tasks := [milk] \<rparr>) ! nat (m - 1)) = 0)"
    by simp
  show ?thesis
    using completeTask_out_of_range [OF h1 h2 h3 h4 h5, of accepting]
      completeTask_out_of_range [OF h1 h2 h3 h4' h5', of accepting]
      h1 [of 0] h2 [of 0] h3 [of 0] id0 [of 0]
    by (auto simp: blank_def)
qed

text \<open>
  C5 as stated fails for \<^verbatim>\<open>task_number\<close> 0, which is out of range, when \<^verbatim>\<open>task_id\<close> is in
  range: \<^verbatim>\<open>0 || task_id\<close> is \<^verbatim>\<open>task_id\<close>, so with \<^verbatim>\<open>{task_number: 0, task_id: 1}\<close> and one
  task the PATCH request leaves, the task's flag flips and no warning is shown.
\<close>

theorem completeTask_number_zero_counterexample:
  "task_number (empty_args\<lparr> task_number := Some 0, task_id := Some 1 \<rparr>) = Some 0 \<and>
   map completed (tasks (blank\<lparr> tasks := [milk] \<rparr>)) = [False] \<and>
   map completed
     (tasks (handleChatAction
               (Some (chat_action ''completeTask'' (empty_args\<lparr> task_number := Some 0, task_id := Some 1 \<rparr>)))
               accepting (blank\<lparr> tasks := [milk] \<rparr>))) = [True] \<and>
   requests (handleChatAction
               (Some (chat_action ''completeTask'' (empty_args\<lparr> task_number := Some 0, task_id := Some 1 \<rparr>)))
               accepting (blank\<lparr> tasks := [milk] \<rparr>)) = [PATCH_completed 1 True] \<and>
   chatMessages (handleChatAction
               (Some (chat_action ''completeTask'' (empty_args\<lparr> task_number := Some 0, task_id := Some 1 \<rparr>)))
               accepting (blank\<lparr> tasks := [milk] \<rparr>))
     = [(AI, NumberLine (CHECK_MARK @ '' Toggled completion of task #'') (Some 1))]"
  by (simp add: handleChatAction_switch switch_fn_completeTask chat_action_def empty_args_def
      or_number_def getTaskIdByNumber_def blank_def milk_def accepting_def done_patch_def no_patch_def
      toggleComplete_def fetch_def appendMessage_def updateOverview_def renderTasks_def assign_def
      render_all_def renderCalendar_def
      Let_def)


text \<open>
  C10. When the display number of a \<^verbatim>\<open>completeTask\<close> or \<^verbatim>\<open>deleteTask\<close> action is in range
  and the task at that position has id 0, the lookup returns the id 0 and the handler
  treats it like \<^verbatim>\<open>null\<close>: it appends "Invalid task number." and does nothing else, so
  no request is sent and neither the tasks nor \<^verbatim>\<open>deletedTask\<close> change. The resulting state
  is the one an out-of-range number gives.
\<close>

theorem chat_id_zero_invalid:
  assumes "function_name act = Some fn"
    and "fn = ''completeTask'' \<or> fn = ''deleteTask''"
    and "chat_number act = Some n"
    and "1 \<le> n" and "n \<le> int (length (tasks s))"
    and "ident (tasks s ! nat (n - 1)) = 0"
  shows "getTaskIdByNumber (chat_number act) s = Inr (Some 0) \<and>
         handleChatAction (Some act) e s = appendMessage invalid_number AI s \<and>
         requests (handleChatAction (Some act) e s) = requests s \<and>
         tasks (handleChatAction (Some act) e s) = tasks s \<and>
         deletedTask (handleChatAction (Some act) e s) = deletedTask s"
proof -
  have found: "getTaskIdByNumber (chat_number act) s = Inr (Some 0)"
    using assms(3-6) by (simp add: getTaskIdByNumber_in_range)
  have "handleChatAction (Some act) e s = appendMessage invalid_number AI s"
    using assms(2)
  proof
    assume "fn = ''completeTask''"
    then show ?thesis
      using assms(1) found
      by (simp add: handleChatAction_switch switch_fn_completeTask chat_number_def Let_def)
  next
    assume "fn = ''deleteTask''"
    then show ?thesis
      using assms(1) found
      by (simp add: handleChatAction_switch switch_fn_deleteTask chat_number_def Let_def)
  qed
  with found show ?thesis
    by (simp add: appendMessage_def)
qed

theorem chat_id_zero_invalid_witness:
  "function_name (chat_action ''deleteTask'' (number_arg 1)) = Some ''deleteTask'' \<and>
   chat_number (chat_action ''deleteTask'' (number_arg 1)) = Some 1 \<and>
   (1::int) \<le> int (length (tasks (blank\<lparr> tasks := [first_task, milk] \<rparr>))) \<and>
   ident (tasks (blank\<lparr> tasks := [first_task, milk] \<rparr>) ! nat (1 - 1)) = 0 \<and>
   chatMessages (handleChatAction (Some (chat_action ''deleteTask'' (number_arg 1))) accepting
                   (blank\<lparr> tasks := [first_task, milk] \<rparr>)) = [(AI, invalid_number)] \<and>
   requests (handleChatAction (Some (chat_action ''deleteTask'' (number_arg 1))) accepting
               (blank\<lparr> tasks := [first_task, milk] \<rparr>)) = [] \<and>
   tasks (handleChatAction (Some (chat_action ''deleteTask'' (number_arg 1))) accepting
            (blank\<lparr> tasks := [first_task, milk] \<rparr>)) = [first_task, milk]"
proof -
  have h1: "function_name (chat_action ''deleteTask'' (number_arg 1)) = Some ''deleteTask''"
    by (simp add: chat_action_def)
  have h2: "''deleteTask'' = ''completeTask'' \<or> ''deleteTask'' = ''deleteTask''"
    by simp
  have h3: "chat_number (chat_action ''deleteTask'' (number_arg 1)) = Some 1"
    by (simp add: chat_number_def chat_action_def number_arg_def empty_args_def or_number_def)
  have h4: "(1::int) \<le> 1"
    by simp
  have h5: "(1::int) \<le> int (length (tasks (blank\<lparr> tasks := [first_task, milk] \<rparr>)))"
    by simp
  have h6: "ident (tasks (blank\<lparr> tasks := [first_task, milk] \<rparr>) ! nat (1 - 1)) = 0"
    by (simp add: first_task_def)
  show ?thesis
    using h1 h3 h5 h6 chat_id_zero_invalid [OF h1 h2 h3 h4 h5 h6, of accepting]
    by (simp add: blank_def appendMessage_def)
qed

subsection \<open>Re-rendering after a chat action\<close>

lemma switch_fn_addTask:
  "switch_fn ''addTask'' act a e s =
     Break (appendMessage (Plain (CHECK_MARK @ '' Added task: '' @ template_string (arg_description a))) AI
              (addTask (arg_description a) (arg_reminder a) (add_reply e) s))"
  unfolding switch_fn_def by simp

lemma switch_fn_viewTasks:
  "switch_fn ''viewTasks'' act a e s =
     Break (if tasks s = [] then appendMessage (Plain (CLIPBOARD @ '' No tasks yet.'')) AI s
            else view_lines (enumerate 0 (tasks s)) s)"
  unfolding switch_fn_def by simp

lemma switch_fn_undoDelete:
  "switch_fn ''undoDelete'' act a e s =
     Break (appendMessage (Plain (RECYCLING @ '' Restored last deleted task'')) AI
              (undoDelete (undo_reply e) s))"
  unfolding switch_fn_def by simp

lemma switch_fn_resetAll:
  "switch_fn ''resetAll'' act a e s =
     Break (appendMessage (Plain (WASTEBASKET @ '' Cleared all tasks'')) AI
              (resetTasks (confirm_reset e) (reset_reply e) s))"
  unfolding switch_fn_def by simp

lemma switch_fn_Break:
  assumes "fn \<in> set known_functions"
    and "fn = ''completeTask'' \<or> fn = ''deleteTask'' \<longrightarrow>
         (\<exists>i. getTaskIdByNumber (or_number (task_number a) (task_id a)) s = Inr (Some i) \<and> i \<noteq> 0)"
  shows "\<exists>s1. switch_fn fn act a e s = Break s1"
proof -
  have "fn = ''addTask'' \<or> fn = ''viewTasks'' \<or> fn = ''completeTask'' \<or> fn = ''deleteTask''
        \<or> fn = ''undoDelete'' \<or> fn = ''resetAll''"
    using assms(1) by (simp add: known_functions_def)
  then show ?thesis
  proof (elim disjE)
    assume "fn = ''addTask''"
    then show ?thesis by (simp add: switch_fn_addTask)
  next
    assume "fn = ''viewTasks''"
    then show ?thesis by (simp add: switch_fn_viewTasks)
  next
    assume c: "fn = ''completeTask''"
    then have "\<exists>i. getTaskIdByNumber (or_number (task_number a) (task_id a)) s = Inr (Some i) \<and> i \<noteq> 0"
      using assms(2) by simp
    with c show ?thesis by (auto simp: switch_fn_completeTask)
  next
    assume d: "fn = ''deleteTask''"
    then have "\<exists>i. getTaskIdByNumber (or_number (task_number a) (task_id a)) s = Inr (Some i) \<and> i \<noteq> 0"
      using assms(2) by simp
    with d show ?thesis by (auto simp: switch_fn_deleteTask)
  next
    assume "fn = ''undoDelete''"
    then show ?thesis by (simp add: switch_fn_undoDelete)
  next
    assume "fn = ''resetAll''"
    then show ?thesis by (simp add: switch_fn_resetAll)
  qed
qed

lemma not_abandoned_iff:
  "\<not> abandoned act s \<longleftrightarrow> (\<exists>i. getTaskIdByNumber (chat_number act) s = Inr (Some i) \<and> i \<noteq> 0)"
  by (auto simp: abandoned_def split: sum.splits option.splits)

text \<open>
  C1, as amended. For an envelope with one of the six known function names, the state the
  handler leaves is a rendered one (list, calendar and counters drawn from the final
  array), except when a \<^verbatim>\<open>completeTask\<close> or \<^verbatim>\<open>deleteTask\<close> action is abandoned because its
  display number is missing, out of range, or leads to the id 0.
\<close>

theorem chat_action_rerenders:
  assumes "function_name act = Some fn"
    and "fn \<in> set known_functions"
    and "fn = ''completeTask'' \<or> fn = ''deleteTask'' \<longrightarrow> \<not> abandoned act s"
  shows "rendered (handleChatAction (Some act) e s)"
proof -
  define a where "a = (case arguments act of None \<Rightarrow> empty_args | Some x \<Rightarrow> x)"
  have ne: "fn \<noteq> []"
    using assms(2) by (auto simp: known_functions_def)
  have "fn = ''completeTask'' \<or> fn = ''deleteTask'' \<longrightarrow>
         (\<exists>i. getTaskIdByNumber (or_number (task_number a) (task_id a)) s = Inr (Some i) \<and> i \<noteq> 0)"
    using assms(3) by (simp add: not_abandoned_iff chat_number_def a_def Let_def)
  with assms(2) have "\<exists>s1. switch_fn fn act a e s = Break s1"
    by (rule switch_fn_Break)
  then obtain s1 where "switch_fn fn act a e s = Break s1" ..
  then have "handleChatAction (Some act) e s = render_all s1"
    using assms(1) ne by (simp add: handleChatAction_switch a_def)
  then show ?thesis
    by (simp add: rendered_render_all)
qed


lemma stale_calendar_eq:
  "stale_calendar =
     blank\<lparr> tasks := [walk\<lparr> completed := True, reminder := Some ''2024-03-01T09:00'' \<rparr>],
            taskList := [\<lparr> ordinal = 1, row_completed = True, row_description = ''Walk dog'',
                          row_reminder = Some ''2024-03-01T09:00'', row_ident = 2 \<rparr>],
            totalTasks := 1, completedTasks := 1, pendingTasks := 0,
            requests := [GET_tasks, PATCH_completed 2 True] \<rparr>"
  by (simp add: stale_calendar_def blank_def walk_def loadTasks_def toggleComplete_def
      render_all_def renderTasks_def renderCalendar_def updateOverview_def fetch_def
      done_patch_def no_patch_def assign_def task_row_def Let_def)

theorem chat_action_rerenders_witness:
  "function_name (chat_action ''completeTask'' (number_arg 1)) = Some ''completeTask'' \<and>
   ''completeTask'' \<in> set known_functions \<and>
   \<not> abandoned (chat_action ''completeTask'' (number_arg 1)) stale_calendar \<and>
   rendered (handleChatAction (Some (chat_action ''completeTask'' (number_arg 1))) offline stale_calendar)"
proof -
  have h1: "function_name (chat_action ''completeTask'' (number_arg 1)) = Some ''completeTask''"
    by (simp add: chat_action_def)
  have h2: "''completeTask'' \<in> set known_functions"
    by (simp add: known_functions_def)
  have h3: "\<not> abandoned (chat_action ''completeTask'' (number_arg 1)) stale_calendar"
    by (simp add: abandoned_def chat_number_def chat_action_def number_arg_def empty_args_def
        or_number_def getTaskIdByNumber_def stale_calendar_eq blank_def walk_def Let_def)
  then have h3': "''completeTask'' = ''completeTask'' \<or> ''completeTask'' = ''deleteTask'' \<longrightarrow>
      \<not> abandoned (chat_action ''completeTask'' (number_arg 1)) stale_calendar"
    by simp
  show ?thesis
    using h1 h2 h3 chat_action_rerenders [OF h1 h2 h3', of offline]
    by simp
qed

text \<open>
  C1 as stated fails when the action is abandoned. In \<^term>\<open>stale_calendar\<close> the task has a
  reminder the calendar does not show yet. A \<^verbatim>\<open>completeTask\<close> action with the number 5
  returns right after the warning: the calendar is still empty, where a render would have
  put the marker.
\<close>

theorem abandoned_action_counterexample:
  "function_name (chat_action ''completeTask'' (number_arg 5)) = Some ''completeTask'' \<and>
   ''completeTask'' \<in> set known_functions \<and>
   calendar (handleChatAction (Some (chat_action ''completeTask'' (number_arg 5))) offline stale_calendar) = [] \<and>
   calendar (renderCalendar
     (handleChatAction (Some (chat_action ''completeTask'' (number_arg 5))) offline stale_calendar))
     = [\<lparr> ev_id = 2, ev_start = ''2024-03-01T09:00'' \<rparr>] \<and>
   \<not> rendered (handleChatAction (Some (chat_action ''completeTask'' (number_arg 5))) offline stale_calendar)"
proof -
  have stay: "handleChatAction (Some (chat_action ''completeTask'' (number_arg 5))) offline stale_calendar
      = appendMessage invalid_number AI stale_calendar"
    by (simp add: handleChatAction_switch switch_fn_completeTask chat_action_def number_arg_def
        empty_args_def or_number_def getTaskIdByNumber_def stale_calendar_eq blank_def)
  have c0: "calendar (appendMessage invalid_number AI stale_calendar) = []"
    by (simp add: appendMessage_def stale_calendar_eq blank_def)
  have c1: "calendar (renderCalendar (appendMessage invalid_number AI stale_calendar))
      = [\<lparr> ev_id = 2, ev_start = ''2024-03-01T09:00'' \<rparr>]"
    by (simp add: renderCalendar_def appendMessage_def stale_calendar_eq blank_def walk_def)
  have c2: "calendar (render_all (appendMessage invalid_number AI stale_calendar))
      = [\<lparr> ev_id = 2, ev_start = ''2024-03-01T09:00'' \<rparr>]"
    by (simp add: render_all_eq appendMessage_def stale_calendar_eq blank_def walk_def)
  have "\<not> rendered (appendMessage invalid_number AI stale_calendar)"
  proof
    assume "rendered (appendMessage invalid_number AI stale_calendar)"
    then have "calendar (render_all (appendMessage invalid_number AI stale_calendar))
        = calendar (appendMessage invalid_number AI stale_calendar)"
      by (simp add: rendered_def)
    with c0 c2 show False by simp
  qed
  with stay c0 c1 show ?thesis
    by (simp add: chat_action_def known_functions_def)
qed

subsection \<open>Creating a task\<close>

lemma trim_empty_iff: "trim d = [] \<longleftrightarrow> (\<forall>c \<in> set d. is_space c)"
proof
  assume "trim d = []"
  then have all: "\<forall>c \<in> set (dropWhile is_space d). is_space c"
    by (simp add: trim_def dropWhile_eq_Nil_conv)
  have "dropWhile is_space d = []"
  proof (rule ccontr)
    assume ne: "dropWhile is_space d \<noteq> []"
    then have "\<not> is_space (hd (dropWhile is_space d))"
      by (rule hd_dropWhile)
    moreover have "hd (dropWhile is_space d) \<in> set (dropWhile is_space d)"
      using ne by simp
    ultimately show False using all by blast
  qed
  then show "\<forall>c \<in> set d. is_space c"
    by (simp add: dropWhile_eq_Nil_conv)
next
  assume "\<forall>c \<in> set d. is_space c"
  then have e: "dropWhile is_space d = []"
    by (simp add: dropWhile_eq_Nil_conv)
  show "trim d = []"
    unfolding trim_def e by simp
qed

lemma addTask_empty:
  "addTask None r resp s = s"
  "addTask (Some []) r resp s = s"
  by (simp_all add: addTask_def)

lemma addTaskFromUI_blank:
  "\<forall>c \<in> set (taskInput s). is_space c \<Longrightarrow>
   addTaskFromUI resp s = showToast ''Enter task description'' s"
  by (simp add: addTaskFromUI_def trim_empty_iff Let_def)

lemma addTask_sends:
  "d \<noteq> [] \<Longrightarrow> requests (addTask (Some d) r resp s) = requests s @ [POST_tasks d r]"
  by (simp add: addTask_def render_all_eq effect_defs Let_def split: response.split)

text \<open>
  C2. The form trims the description before it tests it, so a description of white space
  only stops at the toast (\<open>addTaskFromUI_blank\<close>); \<^verbatim>\<open>addTask\<close> itself tests the untrimmed
  string, so only an empty or missing description stops there (\<open>addTask_empty\<close>). A chat
  \<^verbatim>\<open>addTask\<close> action with a description of three spaces, which trims to the empty string,
  sends the POST request, and when the server accepts it the task is appended.
\<close>

theorem addTask_chat_whitespace:
  "trim ''   '' = [] \<and>
   requests (handleChatAction
               (Some (chat_action ''addTask'' (empty_args\<lparr> arg_description := Some ''   '' \<rparr>)))
               offline blank) = [POST_tasks ''   '' None] \<and>
   tasks (handleChatAction
            (Some (chat_action ''addTask'' (empty_args\<lparr> arg_description := Some ''   '' \<rparr>)))
            accepting blank) = [spaces_task]"
  by (simp add: trim_def is_space_def handleChatAction_switch switch_fn_addTask chat_action_def
      empty_args_def addTask_def render_all_eq effect_defs offline_def accepting_def blank_def Let_def)


subsection \<open>Calendar\<close>



text \<open>As long as no reminder is the empty string, having a reminder is not being
  \<^verbatim>\<open>null\<close>.\<close>

lemma has_reminder_iff: "reminder t \<noteq> Some [] \<Longrightarrow> has_reminder t = (reminder t \<noteq> None)"
  by (cases "reminder t") (simp_all add: has_reminder_def)






subsection \<open>List and counters stay in step with the array\<close>

text \<open>
  \<^verbatim>\<open>renderTasks\<close> and \<^verbatim>\<open>updateOverview\<close> run after every change of the array, so what
  C3 and C4 say of a render holds of the page after any sequence of events.
\<close>

lemma length_filter_sort_key: "length (filter P (sort_key f xs)) = length (filter P xs)"
  by (simp add: filter_sort)

lemma page_ok_render_all: "page_ok (render_all s)"
  by (simp add: page_ok_def list_ok_def counters_ok_def tasks_sorted_def render_all_eq)

lemma page_ok_list_counters: "page_ok (updateOverview (renderTasks s))"
  by (simp add: page_ok_def list_ok_def counters_ok_def tasks_sorted_def renderTasks_def
      updateOverview_def Let_def)

lemma page_ok_frame:
  "page_ok s \<Longrightarrow> tasks s' = tasks s \<Longrightarrow> taskList s' = taskList s \<Longrightarrow>
   totalTasks s' = totalTasks s \<Longrightarrow> completedTasks s' = completedTasks s \<Longrightarrow>
   pendingTasks s' = pendingTasks s \<Longrightarrow> page_ok s'"
  by (simp add: page_ok_def list_ok_def counters_ok_def tasks_sorted_def)

lemma page_ok_effects [simp]:
  "page_ok (showToast m s) = page_ok s"
  "page_ok (console_error er s) = page_ok s"
  "page_ok (fetch r s) = page_ok s"
  "page_ok (appendMessage x w s) = page_ok s"
  "page_ok (clearChat s) = page_ok s"
  "page_ok (showDayTasks d s) = page_ok s"
  by (simp_all add: page_ok_def list_ok_def counters_ok_def tasks_sorted_def effect_defs
      showDayTasks_def Let_def)

lemma page_ok_view_lines [simp]: "page_ok (view_lines its s) = page_ok s"
  by (induction its s rule: view_lines.induct) simp_all

lemma page_ok_addTask: "page_ok s \<Longrightarrow> page_ok (addTask d r resp s)"
  by (auto simp: addTask_def Let_def page_ok_render_all split: option.splits response.splits)

lemma page_ok_addTaskFromUI: "page_ok s \<Longrightarrow> page_ok (addTaskFromUI resp s)"
proof -
  assume ok: "page_ok s"
  have "\<And>d r. page_ok ((addTask d r resp s)\<lparr> taskInput := [], dateInput := [], timeInput := [] \<rparr>)"
    using page_ok_addTask [OF ok] by (rule page_ok_frame) simp_all
  then show ?thesis
    using ok by (simp add: addTaskFromUI_def Let_def)
qed

lemma page_ok_toggleComplete: "page_ok s \<Longrightarrow> page_ok (toggleComplete i resp s)"
  by (auto simp: toggleComplete_def Let_def page_ok_list_counters split: option.splits response.splits)

lemma page_ok_editTask: "page_ok s \<Longrightarrow> page_ok (editTask i d r resp s)"
  by (auto simp: editTask_def Let_def page_ok_render_all split: option.splits response.splits)

lemma page_ok_deleteTask: "page_ok s \<Longrightarrow> page_ok (deleteTask i resp s)"
proof (cases "find (\<lambda>t. ident t = i) (tasks s)")
  case None
  assume "page_ok s"
  then show ?thesis using None by (simp add: deleteTask_def deleteTask_send_def)
next
  case (Some t)
  assume ok: "page_ok s"
  have "page_ok (s\<lparr> deletedTask := Some t \<rparr>)"
    using ok by (rule page_ok_frame) simp_all
  then show ?thesis
    using Some
    by (simp add: deleteTask_def deleteTask_send_def deleteTask_settle_def page_ok_render_all
        split: response.split)
qed

lemma page_ok_undoDelete: "page_ok s \<Longrightarrow> page_ok (undoDelete resp s)"
proof -
  assume ok: "page_ok s"
  have "\<And>s1. page_ok ((render_all s1)\<lparr> deletedTask := None \<rparr>)"
    using page_ok_render_all by (rule page_ok_frame) simp_all
  then show ?thesis
    using ok by (auto simp: undoDelete_def Let_def split: option.splits response.splits)
qed

lemma page_ok_resetTasks: "page_ok s \<Longrightarrow> page_ok (resetTasks c resp s)"
  by (auto simp: resetTasks_def Let_def page_ok_render_all split: response.splits)

lemma page_ok_loadTasks: "page_ok s \<Longrightarrow> page_ok (loadTasks resp s)"
  by (auto simp: loadTasks_def Let_def page_ok_render_all split: response.splits)

lemma page_ok_handleChatAction: "page_ok s \<Longrightarrow> page_ok (handleChatAction action e s)"
proof (cases action)
  case None
  assume "page_ok s"
  then show ?thesis using None by (simp add: handleChatAction_def)
next
  case (Some act)
  assume ok: "page_ok s"
  define a where "a = (case arguments act of None \<Rightarrow> empty_args | Some x \<Rightarrow> x)"
  have plain: "page_ok (case reply act of None \<Rightarrow> s
      | Some r \<Rightarrow> if r \<noteq> [] then appendMessage (Plain r) AI s else s)"
    using ok by (simp split: option.split)
  have sw: "page_ok (case switch_fn fn act a e s of
            Break s1 \<Rightarrow> render_all s1
          | Return s1 \<Rightarrow> s1
          | Throw err s1 \<Rightarrow> appendMessage (Plain (WARNING_SIGN @ '' '' @ message err)) AI (console_error err s1))"
    for fn
    using switch_fn_cases [of fn act a e s] ok
    by (auto simp: page_ok_render_all)
  show ?thesis
    using Some plain sw
    by (simp add: handleChatAction_def a_def Let_def split: option.split)
qed

lemma page_ok_sendMessage: "page_ok s \<Longrightarrow> page_ok (sendMessage resp e s)"
proof -
  assume ok: "page_ok s"
  define s1 where
    "s1 = fetch (POST_chat (trim (chatInput s))) ((appendMessage (Plain (trim (chatInput s))) User s)\<lparr> chatInput := [] \<rparr>)"
  have "page_ok ((appendMessage (Plain (trim (chatInput s))) User s)\<lparr> chatInput := [] \<rparr>)"
    using ok by (rule page_ok_frame) (simp_all add: appendMessage_def)
  then have s1: "page_ok s1"
    by (simp add: s1_def)
  have "\<And>result. page_ok (handleChatAction result e s1)"
    using s1 by (rule page_ok_handleChatAction)
  then show ?thesis
    using ok s1
    by (simp add: sendMessage_def Let_def s1_def [symmetric] split: response.split)
qed

lemma page_ok_fire: "page_ok s \<Longrightarrow> page_ok (fire ev s)"
proof (cases ev)
  case (TypeTask d dt tm)
  assume "page_ok s"
  then have "page_ok (s\<lparr> taskInput := d, dateInput := dt, timeInput := tm \<rparr>)"
    by (rule page_ok_frame) simp_all
  then show ?thesis using TypeTask by simp
next
  case (TypeChat m)
  assume "page_ok s"
  then have "page_ok (s\<lparr> chatInput := m \<rparr>)"
    by (rule page_ok_frame) simp_all
  then show ?thesis using TypeChat by simp
qed (simp_all add: page_ok_loadTasks page_ok_addTaskFromUI page_ok_toggleComplete page_ok_editTask
      page_ok_deleteTask page_ok_undoDelete page_ok_resetTasks page_ok_sendMessage)

lemma page_ok_exec: "page_ok s \<Longrightarrow> page_ok (exec evs s)"
  by (induction evs arbitrary: s) (simp_all add: page_ok_fire)

lemma page_ok_blank: "page_ok blank"
  by (simp add: page_ok_def list_ok_def counters_ok_def tasks_sorted_def blank_def)


end
